theory Spec2Isabelle
  imports Main "HOL-Library.Word"
begin

unbundle bit_operations_syntax

section \<open>Key names of libelektra: \<^verbatim>\<open>src/libelektra/keyname.c\<close>\<close>

text \<open>
  The development embeds the name manipulation functions of \<^verbatim>\<open>keyname.c\<close>.
  Conventions of the embedding:
  \<^item> a C string argument (\<^verbatim>\<open>const char *\<close>) is a \<open>string option\<close>: \<open>None\<close> is the
    NULL pointer, \<open>Some s\<close> holds the bytes before the terminating NUL;
  \<^item> \<^verbatim>\<open>size_t\<close> is \<open>nat\<close> and \<^verbatim>\<open>ssize_t\<close> is \<open>int\<close>; sizes stay far below
    the machine limits, so no wrap-around is written out. A subtraction that would wrap
    below zero in C stops at 0 here; that needs a key whose \<open>keySize\<close> is smaller than
    the name in its buffer, and the evaluations below never reach one;
  \<^item> a function that mutates the key returns its return value paired with the new key;
  \<^item> the \<^verbatim>\<open>Key *\<close> argument is always a valid key; the \<^verbatim>\<open>if (!key) return -1\<close>
    guards have no counterpart;
  \<^item> allocation never fails.
\<close>

subsection \<open>Constants and the key structure\<close>

type_synonym ssize_t = int

definition NUL :: char where
  "NUL = CHR 0x00"

text \<open>From \<^verbatim>\<open>kdb.h\<close>: \<^verbatim>\<open>#define KDB_PATH_SEPARATOR '/'\<close> and
  \<^verbatim>\<open>#define KDB_PATH_ESCAPE '\\'\<close>.\<close>

definition KDB_PATH_SEPARATOR :: char where
  "KDB_PATH_SEPARATOR = CHR ''/''"

definition KDB_PATH_ESCAPE :: char where
  "KDB_PATH_ESCAPE = CHR 0x5C"

text \<open>From \<^verbatim>\<open>kdb.h\<close>: the namespace enumeration.\<close>

datatype elektraNamespace =
  KEY_NS_NONE | KEY_NS_EMPTY | KEY_NS_CASCADING | KEY_NS_META | KEY_NS_SPEC
  | KEY_NS_PROC | KEY_NS_DIR | KEY_NS_USER | KEY_NS_SYSTEM | KEY_NS_DEFAULT

text \<open>
  Modelled from the spec: the private key flags (\<^verbatim>\<open>keyflag_t\<close> of
  \<^verbatim>\<open>kdbprivate.h\<close>) and the macro \<^verbatim>\<open>test_bit\<close> are not among the source files.
  The spec has a sync flag and the lock flags for name, value and meta, kept as a small
  bitset per key; each flag is one bit of the flag word.
\<close>

definition KEY_FLAG_SYNC :: "32 word" where
  "KEY_FLAG_SYNC = 1"

definition KEY_FLAG_RO_NAME :: "32 word" where
  "KEY_FLAG_RO_NAME = 2"

definition KEY_FLAG_RO_VALUE :: "32 word" where
  "KEY_FLAG_RO_VALUE = 4"

definition KEY_FLAG_RO_META :: "32 word" where
  "KEY_FLAG_RO_META = 8"

definition test_bit :: "32 word \<Rightarrow> 32 word \<Rightarrow> bool" where
  "test_bit var b = (var AND b \<noteq> 0)"

text \<open>
  The fields of \<^verbatim>\<open>struct _Key\<close> that \<^verbatim>\<open>keyname.c\<close> touches. The buffer
  \<open>key\<close> holds the escaped name (\<open>keySize\<close> bytes with its NUL) followed by the
  unescaped name (\<open>keyUSize\<close> bytes). \<open>None\<close> is the NULL pointer. The list holds the
  bytes of the allocation that have a determinate value, from its start: bytes of a fresh
  allocation that were never written, and bytes copied from beyond the end of a source
  string, are not represented. \<open>owner\<close> is the value of the meta key \<^verbatim>\<open>owner\<close>.
\<close>

record Key =
  key :: "char list option"
  keySize :: nat
  keyUSize :: nat
  flags :: "32 word"
  owner :: "string option"

subsection \<open>Buffers\<close>

text \<open>The C string that starts at the beginning of a buffer: the bytes before the first NUL.\<close>

definition cstring :: "char list \<Rightarrow> string" where
  "cstring buf = takeWhile (\<lambda>c. c \<noteq> NUL) buf"

text \<open>A byte that was never written and lies below a written one.\<close>

definition unwritten :: char where
  "unwritten = CHR 0xFF"

text \<open>\<^verbatim>\<open>memcpy (buf + i, src, strlen src)\<close>; \<open>poke\<close> is the single byte write
  \<^verbatim>\<open>buf[i] = c\<close>.\<close>

definition memcpy_at :: "char list \<Rightarrow> nat \<Rightarrow> char list \<Rightarrow> char list" where
  "memcpy_at buf i src =
     take i buf @ replicate (i - length buf) unwritten @ src @ drop (i + length src) buf"

definition poke :: "char list \<Rightarrow> nat \<Rightarrow> char \<Rightarrow> char list" where
  "poke buf i c = memcpy_at buf i [c]"

text \<open>\<^verbatim>\<open>elektraRealloc\<close> keeps the contents up to the new size.\<close>

definition elektraRealloc :: "char list \<Rightarrow> nat \<Rightarrow> char list" where
  "elektraRealloc buf n = take n buf"

text \<open>
  Modelled from the spec: \<^verbatim>\<open>elektraStrLen\<close> and \<^verbatim>\<open>elektraStrNDup\<close> are not among the
  source files. Sizes of names count the terminating NUL (the empty name has size 1);
  \<^verbatim>\<open>elektraStrNDup (s, l)\<close> copies \<open>l\<close> bytes starting at \<open>s\<close>.
\<close>

definition elektraStrLen :: "string \<Rightarrow> nat" where
  "elektraStrLen s = length s + 1"

definition elektraStrNDup :: "string \<Rightarrow> nat \<Rightarrow> char list" where
  "elektraStrNDup s l = take l (s @ [NUL])"

subsection \<open>Tokens of a name\<close>

text \<open>
  Modelled from the spec: \<^verbatim>\<open>keyNameGetOneLevel\<close> is not among the source files. The
  spec's one-level operation yields the next part boundary in an escaped name, respecting
  escape runs: runs of unescaped separators before the part are skipped, and the part ends
  before the first separator that is preceded by an even number of backslashes. The result
  is the rest of the name from the start of the part, and the size of the part.
\<close>

fun level_size :: "string \<Rightarrow> nat \<Rightarrow> nat" where
  "level_size [] escapeCount = 0"
| "level_size (c # cs) escapeCount =
     (if c = KDB_PATH_ESCAPE then Suc (level_size cs (Suc escapeCount))
      else if c = KDB_PATH_SEPARATOR then
        (if even escapeCount then 0 else Suc (level_size cs 0))
      else Suc (level_size cs 0))"

definition keyNameGetOneLevel :: "string \<Rightarrow> string \<times> nat" where
  "keyNameGetOneLevel name =
     (let real = dropWhile (\<lambda>c. c = KDB_PATH_SEPARATOR) name
      in (real, level_size real 0))"

subsection \<open>Namespaces\<close>

text \<open>
  Modelled from the spec: \<^verbatim>\<open>keyNameIsSpec\<close>, \<^verbatim>\<open>keyNameIsProc\<close>, \<^verbatim>\<open>keyNameIsDir\<close>,
  \<^verbatim>\<open>keyNameIsUser\<close> and \<^verbatim>\<open>keyNameIsSystem\<close> are not among the source files. The
  namespace is determined by the first segment of the name: the name is the namespace
  token or continues with a separator after it; a user name may also continue with
  \<^verbatim>\<open>:owner\<close>.
\<close>

definition keyNameIsSpec :: "string \<Rightarrow> bool" where
  "keyNameIsSpec name = (name = ''spec'' \<or> take 5 name = ''spec/'')"

definition keyNameIsProc :: "string \<Rightarrow> bool" where
  "keyNameIsProc name = (name = ''proc'' \<or> take 5 name = ''proc/'')"

definition keyNameIsDir :: "string \<Rightarrow> bool" where
  "keyNameIsDir name = (name = ''dir'' \<or> take 4 name = ''dir/'')"

definition keyNameIsUser :: "string \<Rightarrow> bool" where
  "keyNameIsUser name =
     (name = ''user'' \<or> take 5 name = ''user/'' \<or> take 5 name = ''user:'')"

definition keyNameIsSystem :: "string \<Rightarrow> bool" where
  "keyNameIsSystem name = (name = ''system'' \<or> take 7 name = ''system/'')"

definition keyGetNameNamespace :: "string option \<Rightarrow> elektraNamespace" where
  "keyGetNameNamespace name =
     (case name of
        None \<Rightarrow> KEY_NS_EMPTY
      | Some n \<Rightarrow>
          if n = [] then KEY_NS_EMPTY
          else if hd n = CHR ''/'' then KEY_NS_CASCADING
          else if keyNameIsSpec n then KEY_NS_SPEC
          else if keyNameIsProc n then KEY_NS_PROC
          else if keyNameIsDir n then KEY_NS_DIR
          else if keyNameIsUser n then KEY_NS_USER
          else if keyNameIsSystem n then KEY_NS_SYSTEM
          else KEY_NS_META)"

definition keyGetNamespace :: "Key \<Rightarrow> elektraNamespace" where
  "keyGetNamespace k = keyGetNameNamespace (map_option cstring (key k))"

subsection \<open>Name getters\<close>

definition keyName :: "Key \<Rightarrow> string" where
  "keyName k = (case key k of None \<Rightarrow> [] | Some buf \<Rightarrow> cstring buf)"

text \<open>\<^verbatim>\<open>keyUnescapedName\<close> returns a pointer to \<open>keyUSize\<close> bytes that hold NULs; the
  model returns those bytes.\<close>

definition keyUnescapedName :: "Key \<Rightarrow> char list" where
  "keyUnescapedName k =
     (case key k of None \<Rightarrow> [] | Some buf \<Rightarrow> take (keyUSize k) (drop (keySize k) buf))"

definition keyGetNameSize :: "Key \<Rightarrow> ssize_t" where
  "keyGetNameSize k = (case key k of None \<Rightarrow> 1 | Some buf \<Rightarrow> int (keySize k))"

definition keyGetUnescapedNameSize :: "Key \<Rightarrow> ssize_t" where
  "keyGetUnescapedNameSize k = (case key k of None \<Rightarrow> 0 | Some buf \<Rightarrow> int (keyUSize k))"

text \<open>
  Modelled from the spec: \<^verbatim>\<open>keyNeedSync\<close> is declared in \<^verbatim>\<open>kdb.h\<close> and defined
  outside the source files; it reports the sync flag.
\<close>

definition keyNeedSync :: "Key \<Rightarrow> bool" where
  "keyNeedSync k = test_bit (flags k) KEY_FLAG_SYNC"

subsection \<open>Escaping and unescaping\<close>

text \<open>
  Modelled from the spec: \<^verbatim>\<open>elektraValidateKeyName\<close> is not among the source files.
  The spec's validation rejects unpaired backslashes; the documentation of
  \<^verbatim>\<open>keyAddName\<close> in \<^verbatim>\<open>keyname.c\<close> states the rule for the name it is given: the
  name is not allowed to end with an unequal number of backslashes. The second argument is
  the size of the name with its NUL.
\<close>

definition elektraValidateKeyName :: "string \<Rightarrow> nat \<Rightarrow> bool" where
  "elektraValidateKeyName name nameSize =
     even (length (takeWhile (\<lambda>c. c = KDB_PATH_ESCAPE) (rev name)))"

text \<open>
  Modelled from the spec: \<^verbatim>\<open>elektraEscapeKeyNamePart\<close> is not among the source files.
  The spec's escape-part operation pre-escapes backslash and slash, the dot when the whole
  part is \<^verbatim>\<open>.\<close> or \<^verbatim>\<open>..\<close>, and the percent sign when the part would otherwise start
  with it; a bare \<^verbatim>\<open>%\<close> represents the empty part.
\<close>

fun escape_bytes :: "string \<Rightarrow> string" where
  "escape_bytes [] = []"
| "escape_bytes (c # cs) =
     (if c = KDB_PATH_ESCAPE \<or> c = KDB_PATH_SEPARATOR
      then KDB_PATH_ESCAPE # c # escape_bytes cs
      else c # escape_bytes cs)"

definition elektraEscapeKeyNamePart :: "string \<Rightarrow> string" where
  "elektraEscapeKeyNamePart source =
     (if source = [] then ''%''
      else if source = ''.'' \<or> source = ''..'' then KDB_PATH_ESCAPE # source
      else if hd source = CHR ''%'' then KDB_PATH_ESCAPE # escape_bytes source
      else escape_bytes source)"

text \<open>
  Modelled from the spec: \<^verbatim>\<open>elektraUnescapeKeyName\<close> is not among the source files.
  The spec's unescape-name operation yields the raw segments of a name, each terminated
  by NUL; the first segment is the namespace token, a single \<^verbatim>\<open>/\<close> byte for a cascading
  name. Within a part, \<open>N\<close> backslashes before a slash give \<open>N div 2\<close> backslashes (and
  the slash, when it is escaped); \<^verbatim>\<open>\.\<close> and \<^verbatim>\<open>\..\<close> are the parts \<^verbatim>\<open>.\<close> and
  \<^verbatim>\<open>..\<close>; \<^verbatim>\<open>\%\<close> starts a part with \<^verbatim>\<open>%\<close>; a bare \<^verbatim>\<open>%\<close> is the empty part.
  The result is the sequence of bytes written to the destination; the C function returns
  their number.
\<close>

fun unescape_run :: "nat \<Rightarrow> string \<Rightarrow> string" where
  "unescape_run n [] = replicate (n div 2) KDB_PATH_ESCAPE"
| "unescape_run n (c # cs) =
     (if c = KDB_PATH_ESCAPE then unescape_run (Suc n) cs
      else if c = KDB_PATH_SEPARATOR
      then replicate (n div 2) KDB_PATH_ESCAPE @ c # unescape_run 0 cs
      else replicate n KDB_PATH_ESCAPE @ c # unescape_run 0 cs)"

definition elektraUnescapeKeyNamePart :: "string \<Rightarrow> string" where
  "elektraUnescapeKeyNamePart part =
     (if part = ''%'' then []
      else if part = KDB_PATH_ESCAPE # ''.'' then ''.''
      else if part = KDB_PATH_ESCAPE # ''..'' then ''..''
      else if take 2 part = KDB_PATH_ESCAPE # ''%'' then unescape_run 0 (tl part)
      else unescape_run 0 part)"

lemma level_size_le: "level_size s n \<le> length s"
  by (induction s n rule: level_size.induct) auto

lemma level_size_pos:
  "s \<noteq> [] \<Longrightarrow> hd s \<noteq> KDB_PATH_SEPARATOR \<Longrightarrow> 0 < level_size s n"
  by (cases s) auto

lemma keyNameGetOneLevel_shorter:
  assumes "keyNameGetOneLevel rest = (p, n)" and "p \<noteq> []"
  shows "length (drop n p) < length rest"
proof -
  from assms have p: "p = dropWhile (\<lambda>c. c = KDB_PATH_SEPARATOR) rest"
    and sz: "n = level_size p 0"
    by (auto simp: keyNameGetOneLevel_def Let_def)
  from p assms(2) have "hd p \<noteq> KDB_PATH_SEPARATOR"
    using hd_dropWhile [of "\<lambda>c. c = KDB_PATH_SEPARATOR" rest] by auto
  with assms(2) sz have "0 < n"
    by (simp add: level_size_pos)
  moreover have "length p \<le> length rest"
    unfolding p by (rule length_dropWhile_le)
  moreover from assms(2) have "Suc 0 \<le> length p"
    by (cases p) simp_all
  ultimately show ?thesis
    by simp
qed

function unescape_levels :: "string \<Rightarrow> char list" where
  "unescape_levels rest =
     (case keyNameGetOneLevel rest of
        (sp, size') \<Rightarrow>
          if sp = [] then []
          else elektraUnescapeKeyNamePart (take size' sp) @ NUL # unescape_levels (drop size' sp))"
  by pat_completeness auto
termination
  by (relation "measure length") (auto dest: keyNameGetOneLevel_shorter [OF sym])

declare unescape_levels.simps [simp del]

definition first_is :: "char list \<Rightarrow> char \<Rightarrow> bool" where
  "first_is buf c = (case buf of [] \<Rightarrow> False | b # _ \<Rightarrow> b = c)"

definition elektraUnescapeKeyName :: "string \<Rightarrow> char list" where
  "elektraUnescapeKeyName source =
     (if first_is source CHR ''/'' then [CHR ''/'', NUL] else []) @ unescape_levels source"

subsection \<open>Owner\<close>

text \<open>
  Modelled from the spec: \<^verbatim>\<open>keySetMeta\<close> and the meta key set are not among the source
  files. Only the meta key \<^verbatim>\<open>owner\<close> is kept. Setting a meta value inserts or replaces
  it, setting it to null removes it; a locked meta facet cannot change; the sync flag is
  set on every mutation.
\<close>

definition keySetMeta_owner :: "Key \<Rightarrow> string option \<Rightarrow> Key" where
  "keySetMeta_owner k newMetaString =
     (if test_bit (flags k) KEY_FLAG_RO_META then k
      else case newMetaString of
             None \<Rightarrow>
               (if owner k = None then k
                else k\<lparr>owner := None, flags := flags k OR KEY_FLAG_SYNC\<rparr>)
           | Some v \<Rightarrow> k\<lparr>owner := Some v, flags := flags k OR KEY_FLAG_SYNC\<rparr>)"

definition keyGetOwnerSize :: "Key \<Rightarrow> ssize_t" where
  "keyGetOwnerSize k = (case owner k of None \<Rightarrow> 1 | Some v \<Rightarrow> int (length v) + 1)"

definition keySetOwner :: "Key \<Rightarrow> string option \<Rightarrow> ssize_t \<times> Key" where
  "keySetOwner k newOwner =
     (case newOwner of
        None \<Rightarrow> (1, keySetMeta_owner k None)
      | Some v \<Rightarrow>
          if v = [] then (1, keySetMeta_owner k None)
          else (let k' = keySetMeta_owner k (Some v) in (keyGetOwnerSize k', k')))"

subsection \<open>Finishing a name\<close>

text \<open>The buffer behind \<^verbatim>\<open>key->key\<close>, in code that is reached with a buffer only.\<close>

definition the_key :: "Key \<Rightarrow> char list" where
  "the_key k = (case key k of None \<Rightarrow> [] | Some buf \<Rightarrow> buf)"

definition elektraFinalizeName :: "Key \<Rightarrow> ssize_t \<times> Key" where
  "elektraFinalizeName k =
     (let buf = poke (the_key k) (keySize k - 1) NUL;
          unescaped = elektraUnescapeKeyName (cstring buf);
          k' = k\<lparr>key := Some (memcpy_at buf (keySize k) unescaped),
                 keyUSize := length unescaped,
                 flags := flags k OR KEY_FLAG_SYNC\<rparr>
      in (int (keySize k'), k'))"

definition elektraFinalizeEmptyName :: "Key \<Rightarrow> ssize_t \<times> Key" where
  "elektraFinalizeEmptyName k =
     (let k' = k\<lparr>key := Some [NUL, NUL], keySize := 1, keyUSize := 1,
                 flags := flags k OR KEY_FLAG_SYNC\<rparr>
      in (int (keySize k'), k'))"

definition elektraHandleUserName :: "Key \<Rightarrow> string \<Rightarrow> Key" where
  "elektraHandleUserName k newName =
     (let userLength = 5;
          k1 = k\<lparr>keyUSize := userLength, keySize := userLength\<rparr>;
          delim = (if userLength - 1 < length newName then newName ! (userLength - 1) else NUL)
      in if delim = CHR ''/'' \<or> delim = NUL then k1
         else
           (let k2 = k1\<lparr>keyUSize := snd (keyNameGetOneLevel newName)\<rparr>;
                ownerLength = keyUSize k2 - userLength;
                k3 = k2\<lparr>keyUSize := keyUSize k2 + 1\<rparr>;
                owner' = take ownerLength (drop userLength newName)
            in snd (keySetOwner k3 (Some owner'))))"

definition elektraRemoveKeyName :: "Key \<Rightarrow> Key" where
  "elektraRemoveKeyName k = k\<lparr>key := None, keySize := 0, keyUSize := 0\<rparr>"

subsection \<open>Adding to a name\<close>

function count_levels :: "string \<Rightarrow> nat \<Rightarrow> nat \<Rightarrow> nat \<times> nat" where
  "count_levels rest levels sizeOfLastLevel =
     (case keyNameGetOneLevel rest of
        (x, xsize) \<Rightarrow>
          if x = [] then (levels, sizeOfLastLevel)
          else count_levels (drop xsize x) (levels + 1) xsize)"
  by pat_completeness auto
termination
  by (relation "measure (\<lambda>(rest, levels, sizeOfLastLevel). length rest)")
    (auto dest: keyNameGetOneLevel_shorter [OF sym])

declare count_levels.simps [simp del]

text \<open>
  \<^verbatim>\<open>elektraRemoveOneLevel\<close> saves the byte behind the name, puts a NUL there while it
  counts the levels, and restores the byte at the end. When that byte has no determinate
  value, restoring it leaves the buffer without a determinate value from there on.
\<close>

definition restore_byte :: "char list \<Rightarrow> nat \<Rightarrow> char option \<Rightarrow> char list" where
  "restore_byte buf i save = (case save of None \<Rightarrow> take i buf | Some c \<Rightarrow> poke buf i c)"

definition elektraRemoveOneLevel :: "Key \<Rightarrow> bool \<Rightarrow> Key \<times> bool" where
  "elektraRemoveOneLevel k avoidSlash =
     (let last = keySize k;
          save = (if last < length (the_key k) then Some (the_key k ! last) else None);
          buf = poke (the_key k) last NUL
      in case count_levels (cstring buf) 0 0 of
           (levels, sizeOfLastLevel) \<Rightarrow>
             if levels > 1 then
               (let keySize' = keySize k - (sizeOfLastLevel + 1)
                in (k\<lparr>key := Some (restore_byte (poke buf keySize' NUL) last save),
                      keySize := keySize'\<rparr>, avoidSlash))
             else if first_is buf CHR ''/'' then
               (k\<lparr>key := Some (restore_byte buf last save), keySize := 1\<rparr>, True)
             else
               (k\<lparr>key := Some (restore_byte buf last save)\<rparr>, avoidSlash))"

text \<open>The loop of \<^verbatim>\<open>keyAddName\<close> over the parts of \<open>newName\<close>; \<open>rest\<close> is
  \<^verbatim>\<open>p + size\<close>.\<close>

function keyAddName_loop :: "string \<Rightarrow> Key \<Rightarrow> bool \<Rightarrow> Key \<times> bool" where
  "keyAddName_loop rest k avoidSlash =
     (case keyNameGetOneLevel rest of
        (p, size') \<Rightarrow>
          if p = [] then (k, avoidSlash)
          else if size' = 1 \<and> take 1 p = ''.'' then
            keyAddName_loop (drop size' p) k avoidSlash
          else if size' = 2 \<and> take 2 p = ''..'' then
            (case elektraRemoveOneLevel k avoidSlash of
               (k', avoidSlash') \<Rightarrow> keyAddName_loop (drop size' p) k' avoidSlash')
          else
            (let k1 = (if \<not> avoidSlash
                       then k\<lparr>key := Some (poke (the_key k) (keySize k) KDB_PATH_SEPARATOR),
                              keySize := keySize k + 1\<rparr>
                       else k);
                 k2 = k1\<lparr>key := Some (memcpy_at (the_key k1) (keySize k1) (take size' p)),
                         keySize := keySize k1 + size'\<rparr>
             in keyAddName_loop (drop size' p) k2 False))"
  by pat_completeness auto
termination
  by (relation "measure (\<lambda>(rest, k, avoidSlash). length rest)")
    (auto dest: keyNameGetOneLevel_shorter [OF sym])

declare keyAddName_loop.simps [simp del]

definition keyAddName :: "Key \<Rightarrow> string option \<Rightarrow> ssize_t \<times> Key" where
  "keyAddName k newName =
     (if test_bit (flags k) KEY_FLAG_RO_NAME then (- 1, k)
      else case key k of
        None \<Rightarrow> (- 1, k)
      | Some buf \<Rightarrow>
         (case newName of
            None \<Rightarrow> (0, k)
          | Some n \<Rightarrow>
              let nameSize = elektraStrLen n
              in if nameSize < 2 then (0, k)
                 else if \<not> elektraValidateKeyName n nameSize then (- 1, k)
                 else
                   (let origSize = keySize k;
                        newSize = origSize + nameSize;
                        k1 = k\<lparr>key := Some (elektraRealloc buf (newSize * 2))\<rparr>;
                        avoidSlash = (if first_is (the_key k1) CHR ''/''
                                      then keySize k1 = 2 else False);
                        k2 = k1\<lparr>keySize := keySize k1 - 1\<rparr>;
                        k3 = fst (keyAddName_loop n k2 avoidSlash);
                        k4 = k3\<lparr>keySize := keySize k3 + 1\<rparr>
                    in if origSize = keySize k4 then (0, k4)
                       else elektraFinalizeName k4)))"

subsection \<open>Setting a name\<close>

text \<open>
  The third argument of \<^verbatim>\<open>elektraKeySetName\<close> stands for \<^verbatim>\<open>options & KEY_META_NAME\<close>;
  the option constants are not among the source files. The \<^verbatim>\<open>switch\<close> sets the sizes
  of the root part or returns; \<open>None\<close> is its \<^verbatim>\<open>return -1\<close>.
\<close>

definition elektraKeySetName :: "Key \<Rightarrow> string option \<Rightarrow> bool \<Rightarrow> ssize_t \<times> Key" where
  "elektraKeySetName k newName metaName =
     (if test_bit (flags k) KEY_FLAG_RO_NAME then (- 1, k)
      else
        (let k0 = elektraRemoveKeyName k;
             k1 = (if \<not> metaName then snd (keySetOwner k0 None) else k0);
             ns = keyGetNameNamespace newName;
             n = (case newName of None \<Rightarrow> [] | Some s \<Rightarrow> s)
         in if ns = KEY_NS_NONE \<or> ns = KEY_NS_EMPTY
            then (0, snd (elektraFinalizeEmptyName k1))
            else
              case (case ns of
                      KEY_NS_CASCADING \<Rightarrow> Some (k1\<lparr>keyUSize := 1, keySize := 2\<rparr>)
                    | KEY_NS_SPEC \<Rightarrow> Some (k1\<lparr>keyUSize := 5, keySize := 5\<rparr>)
                    | KEY_NS_PROC \<Rightarrow> Some (k1\<lparr>keyUSize := 5, keySize := 5\<rparr>)
                    | KEY_NS_DIR \<Rightarrow> Some (k1\<lparr>keyUSize := 4, keySize := 4\<rparr>)
                    | KEY_NS_USER \<Rightarrow> Some (elektraHandleUserName k1 n)
                    | KEY_NS_SYSTEM \<Rightarrow> Some (k1\<lparr>keyUSize := 7, keySize := 7\<rparr>)
                    | KEY_NS_META \<Rightarrow>
                        if \<not> metaName then None
                        else (let keySize' = snd (keyNameGetOneLevel n) + 1
                              in Some (k1\<lparr>keySize := keySize', keyUSize := keySize'\<rparr>))
                    | _ \<Rightarrow> Some k1) of
                None \<Rightarrow> (- 1, k1)
              | Some k2 \<Rightarrow>
                  (let k3 = k2\<lparr>key := Some (elektraStrNDup n (keySize k2 * 2))\<rparr>;
                       length' = elektraStrLen n
                   in if length' = keyUSize k3 \<or> length' = keySize k3
                      then (let k4 = snd (elektraFinalizeName k3) in (int (keyUSize k4), k4))
                      else
                        (let k4 = k3\<lparr>key := Some (poke (the_key k3) (keySize k3 - 1) NUL)\<rparr>
                         in case keyAddName k4 (Some (drop (keyUSize k4) n)) of
                              (ret, k5) \<Rightarrow>
                                if ret = - 1 then (ret, elektraRemoveKeyName k5)
                                else (ret, k5)))))"

definition keySetName :: "Key \<Rightarrow> string option \<Rightarrow> ssize_t \<times> Key" where
  "keySetName k newName = elektraKeySetName k newName False"

subsection \<open>Base names\<close>

definition keyAddBaseName :: "Key \<Rightarrow> string option \<Rightarrow> ssize_t \<times> Key" where
  "keyAddBaseName k baseName =
     (case baseName of
        None \<Rightarrow> (int (keySize k), k)
      | Some b \<Rightarrow>
          if test_bit (flags k) KEY_FLAG_RO_NAME then (- 1, k)
          else
            (case key k of
               None \<Rightarrow> (- 1, k)
             | Some buf \<Rightarrow>
                 (let escaped = elektraEscapeKeyNamePart b;
                      size' = length escaped;
                      k1 = k\<lparr>keySize := keySize k + size' + 1\<rparr>;
                      buf1 = elektraRealloc buf (keySize k1 * 2);
                      buf2 = poke buf1 (keySize k1 - size' - 2) KDB_PATH_SEPARATOR;
                      buf3 = memcpy_at buf2 (keySize k1 - size' - 1) escaped;
                      k2 = snd (elektraFinalizeName (k1\<lparr>key := Some buf3\<rparr>))
                  in (int (keySize k2), k2))))"

text \<open>The loop of \<^verbatim>\<open>keySetBaseName\<close>: \<open>off\<close> is the offset of \<open>rest\<close> in the name;
  the result is the offset of \<^verbatim>\<open>searchBaseName\<close> in the name and \<^verbatim>\<open>searchBaseSize\<close>,
  or \<open>None\<close> when \<^verbatim>\<open>searchBaseName\<close> is still NULL.\<close>

function search_base :: "string \<Rightarrow> nat \<Rightarrow> (nat \<times> nat) option \<Rightarrow> (nat \<times> nat) option" where
  "search_base rest off found =
     (case keyNameGetOneLevel rest of
        (p, size') \<Rightarrow>
          if p = [] then found
          else search_base (drop size' p) (off + (length rest - length p) + size')
                 (Some (off + (length rest - length p), size' + 1)))"
  by pat_completeness auto
termination
  by (relation "measure (\<lambda>(rest, off, found). length rest)")
    (auto dest: keyNameGetOneLevel_shorter [OF sym])

declare search_base.simps [simp del]

definition keySetBaseName :: "Key \<Rightarrow> string option \<Rightarrow> ssize_t \<times> Key" where
  "keySetBaseName k baseName =
     (if test_bit (flags k) KEY_FLAG_RO_NAME then (- 1, k)
      else case key k of
        None \<Rightarrow> (- 1, k)
      | Some buf \<Rightarrow>
         (case search_base (cstring buf) 0 None of
            None \<Rightarrow> (- 1, k)
          | Some (searchBaseName, searchBaseSize) \<Rightarrow>
              if searchBaseName = 0 then (- 1, k)
              else
                (let k1 = k\<lparr>keySize := keySize k - searchBaseSize\<rparr>
                 in case baseName of
                      None \<Rightarrow>
                        (let k2 = snd (elektraFinalizeName k1) in (int (keySize k2), k2))
                    | Some b \<Rightarrow>
                        (let escaped = elektraEscapeKeyNamePart b;
                             sizeEscaped = elektraStrLen escaped;
                             buf1 = elektraRealloc buf ((keySize k1 + sizeEscaped) * 2);
                             buf2 = poke buf1 (keySize k1 - 1) KDB_PATH_SEPARATOR;
                             buf3 = memcpy_at buf2 (keySize k1) (escaped @ [NUL]);
                             k2 = k1\<lparr>key := Some buf3, keySize := keySize k1 + sizeEscaped\<rparr>;
                             k3 = snd (elektraFinalizeName k2)
                         in (int (keySize k3), k3)))))"

section \<open>Notions of the specification\<close>

text \<open>
  The first segment of a name, as the specification uses the word: the bytes before the
  first separator. The classification the specification gives for it: \<^verbatim>\<open>user\<close> or
  \<^verbatim>\<open>user:owner\<close> is the user namespace; \<^verbatim>\<open>system\<close>, \<^verbatim>\<open>spec\<close>, \<^verbatim>\<open>proc\<close> and
  \<^verbatim>\<open>dir\<close> likewise; otherwise meta.
\<close>

definition first_segment :: "string \<Rightarrow> string" where
  "first_segment name = takeWhile (\<lambda>c. c \<noteq> KDB_PATH_SEPARATOR) name"

definition namespace_of_first_segment :: "string \<Rightarrow> elektraNamespace" where
  "namespace_of_first_segment seg =
     (if seg = ''spec'' then KEY_NS_SPEC
      else if seg = ''proc'' then KEY_NS_PROC
      else if seg = ''dir'' then KEY_NS_DIR
      else if seg = ''user'' \<or> take 5 seg = ''user:'' then KEY_NS_USER
      else if seg = ''system'' then KEY_NS_SYSTEM
      else KEY_NS_META)"

section \<open>Sample keys\<close>

text \<open>A key without a name, with no flag set and no owner.\<close>

definition unnamed_key :: Key where
  "unnamed_key = \<lparr>key = None, keySize = 0, keyUSize = 0, flags = 0, owner = None\<rparr>"

text \<open>The key \<^verbatim>\<open>system\<close> with a locked name.\<close>

definition locked_system_key :: Key where
  "locked_system_key =
     \<lparr>key = Some (''system'' @ [NUL] @ ''system'' @ [NUL]), keySize = 7, keyUSize = 7,
      flags = KEY_FLAG_RO_NAME, owner = None\<rparr>"

text \<open>The key \<^verbatim>\<open>system/a\<close> with the sync flag clear, as after a successful round trip
  through storage.\<close>

definition synced_system_a :: Key where
  "synced_system_a =
     \<lparr>key = Some (''system/a'' @ [NUL] @ ''system'' @ [NUL] @ ''a'' @ [NUL]),
      keySize = 9, keyUSize = 9, flags = 0, owner = None\<rparr>"

section \<open>Auxiliary facts\<close>

lemma test_bit_or_sync [simp]:
  "test_bit (f OR KEY_FLAG_SYNC) KEY_FLAG_RO_NAME = test_bit f KEY_FLAG_RO_NAME"
  "test_bit (f OR KEY_FLAG_SYNC) KEY_FLAG_RO_META = test_bit f KEY_FLAG_RO_META"
  "test_bit (f OR KEY_FLAG_SYNC) KEY_FLAG_SYNC"
  by (simp_all add: test_bit_def KEY_FLAG_SYNC_def KEY_FLAG_RO_NAME_def KEY_FLAG_RO_META_def
      bit.conj_disj_distrib2)

lemma test_bit_concrete [simp]:
  "\<not> test_bit 0 b" "test_bit KEY_FLAG_RO_NAME KEY_FLAG_RO_NAME"
  by (simp_all add: test_bit_def KEY_FLAG_RO_NAME_def)

text \<open>The equations that evaluate the model on a given name.\<close>

lemmas model_defs = keySetName_def elektraKeySetName_def keyAddName_def elektraRemoveKeyName_def
  keySetOwner_def keySetMeta_owner_def keyGetNameNamespace_def keyNameIsSpec_def keyNameIsProc_def
  keyNameIsDir_def keyNameIsUser_def keyNameIsSystem_def elektraStrNDup_def elektraStrLen_def
  elektraFinalizeName_def elektraFinalizeEmptyName_def elektraHandleUserName_def
  elektraRemoveOneLevel_def restore_byte_def poke_def memcpy_at_def elektraRealloc_def the_key_def
  first_is_def keyNameGetOneLevel_def elektraValidateKeyName_def elektraUnescapeKeyName_def
  elektraUnescapeKeyNamePart_def elektraEscapeKeyNamePart_def cstring_def NUL_def
  KDB_PATH_SEPARATOR_def KDB_PATH_ESCAPE_def
  keyName_def keyGetNameSize_def keyGetUnescapedNameSize_def keyUnescapedName_def
  keyGetNamespace_def keyNeedSync_def keyAddBaseName_def keySetBaseName_def
  keyAddName_loop.simps count_levels.simps unescape_levels.simps search_base.simps Let_def

lemma key_keySetOwner [simp]: "key (snd (keySetOwner k v)) = key k"
  by (simp add: keySetOwner_def keySetMeta_owner_def Let_def split: option.splits)

lemma elektraKeySetName_fails:
  assumes "\<not> test_bit (flags k) KEY_FLAG_RO_NAME"
    and "fst (elektraKeySetName k newName metaName) = - 1"
  shows "key (snd (elektraKeySetName k newName metaName)) = None"
  using assms
  by (auto simp: elektraKeySetName_def Let_def elektraRemoveKeyName_def
      split: if_splits option.splits prod.splits elektraNamespace.splits)

lemma first_segment_eq_iff:
  assumes "KDB_PATH_SEPARATOR \<notin> set t"
  shows "(first_segment name = t)
         = (name = t \<or> take (Suc (length t)) name = t @ [KDB_PATH_SEPARATOR])"
proof
  assume seg: "first_segment name = t"
  let ?P = "\<lambda>c. c \<noteq> KDB_PATH_SEPARATOR"
  have name: "name = t @ dropWhile ?P name"
    using seg takeWhile_dropWhile_id [of ?P name] by (simp add: first_segment_def)
  show "name = t \<or> take (Suc (length t)) name = t @ [KDB_PATH_SEPARATOR]"
  proof (cases "dropWhile ?P name")
    case Nil
    with name show ?thesis by simp
  next
    case (Cons c cs)
    then have "c = KDB_PATH_SEPARATOR"
      using hd_dropWhile [of ?P name] by auto
    with Cons name have "name = t @ KDB_PATH_SEPARATOR # cs" by simp
    then have "take (Suc (length t)) name = t @ [KDB_PATH_SEPARATOR]"
      by (metis append.assoc append_Cons append_Nil append_eq_conv_conj length_append_singleton)
    then show ?thesis ..
  qed
next
  assume "name = t \<or> take (Suc (length t)) name = t @ [KDB_PATH_SEPARATOR]"
  then show "first_segment name = t"
  proof
    assume "name = t"
    with assms show ?thesis
      by (auto simp: first_segment_def)
  next
    assume tk: "take (Suc (length t)) name = t @ [KDB_PATH_SEPARATOR]"
    have "name = (t @ [KDB_PATH_SEPARATOR]) @ drop (Suc (length t)) name"
      using append_take_drop_id [of "Suc (length t)" name] tk by simp
    then obtain r where "name = t @ KDB_PATH_SEPARATOR # r" by simp
    with assms show ?thesis
      by (auto simp: first_segment_def takeWhile_tail)
  qed
qed

lemma take_takeWhile_iff:
  assumes "length t = n" and "\<forall>c\<in>set t. P c"
  shows "(take n (takeWhile P xs) = t) = (take n xs = t)"
proof
  assume tk: "take n (takeWhile P xs) = t"
  with assms(1) have "n \<le> length (takeWhile P xs)"
    by (metis length_take min.cobounded1 min.commute)
  then have "take n (takeWhile P xs @ dropWhile P xs) = take n (takeWhile P xs)"
    by (simp del: takeWhile_dropWhile_id)
  with tk show "take n xs = t" by simp
next
  assume tk: "take n xs = t"
  have "xs = t @ drop n xs"
    using append_take_drop_id [of n xs] tk by simp
  then have "takeWhile P xs = t @ takeWhile P (drop n xs)"
    using assms(2) by (metis takeWhile_append2)
  with assms(1) show "take n (takeWhile P xs) = t" by simp
qed

lemma keyNameIs_first_segment:
  "keyNameIsSpec name = (first_segment name = ''spec'')"
  "keyNameIsProc name = (first_segment name = ''proc'')"
  "keyNameIsDir name = (first_segment name = ''dir'')"
  "keyNameIsSystem name = (first_segment name = ''system'')"
  "keyNameIsUser name
   = (first_segment name = ''user'' \<or> take 5 (first_segment name) = ''user:'')"
  using first_segment_eq_iff [of "''spec''" name] first_segment_eq_iff [of "''proc''" name]
    first_segment_eq_iff [of "''dir''" name] first_segment_eq_iff [of "''system''" name]
    first_segment_eq_iff [of "''user''" name]
    take_takeWhile_iff [of "''user:''" 5 "\<lambda>c. c \<noteq> KDB_PATH_SEPARATOR" name]
  by (simp_all add: keyNameIsSpec_def keyNameIsProc_def keyNameIsDir_def keyNameIsSystem_def
      keyNameIsUser_def KDB_PATH_SEPARATOR_def first_segment_def eval_nat_numeral)

lemma first_segment_Nil_iff:
  "(first_segment name = []) = (name = [] \<or> hd name = KDB_PATH_SEPARATOR)"
  by (cases name) (simp_all add: first_segment_def)

section \<open>The properties\<close>

subsection \<open>C1: canonical names\<close>

text \<open>
  The examples of C1 hold for every key whose name is not locked: the names are stored in
  canonical form, and the first call returns the size of the new name.
\<close>

lemma keySetName_examples:
  assumes "\<not> test_bit (flags k) KEY_FLAG_RO_NAME"
  shows "fst (keySetName k (Some ''user///sw/../sw//././MyApp'')) = 14"
    and "keyName (snd (keySetName k (Some ''user///sw/../sw//././MyApp''))) = ''user/sw/MyApp''"
    and "keyName (snd (keySetName k (Some ''/a//b''))) = ''/a/b''"
    and "keyName (snd (keySetName k (Some ''/a/./b''))) = ''/a/b''"
    and "keyName (snd (keySetName k (Some ''/a/../b''))) = ''/b''"
    and "keyName (snd (keySetName k (Some ''/../a''))) = ''/a''"
  using assms by (simp_all add: model_defs cong: let_weak_cong)

text \<open>
  C1 says that for every call of \<^verbatim>\<open>keySetName\<close> on a key without a name lock the stored
  escaped name is the canonical form of the given name. The canonical form of
  \<^verbatim>\<open>/a/b/../..\<close> is the cascading root \<^verbatim>\<open>/\<close>. The code returns 0 for it and stores
  the name \<^verbatim>\<open>/a\<close> with size 2: the new name has the size of the root, so \<^verbatim>\<open>keyAddName\<close>
  returns at its test \<^verbatim>\<open>origSize == key->keySize\<close> before \<^verbatim>\<open>elektraFinalizeName\<close>
  terminates the name.
\<close>

theorem keySetName_not_canonical:
  "fst (keySetName unnamed_key (Some ''/a/b/../..'')) = 0
   \<and> keyName (snd (keySetName unnamed_key (Some ''/a/b/../..''))) = ''/a''
   \<and> keyGetNameSize (snd (keySetName unnamed_key (Some ''/a/b/../..''))) = 2"
  by (simp add: model_defs unnamed_key_def cong: let_weak_cong)

subsection \<open>C2: setting a canonical name again\<close>

text \<open>
  C2 says that setting the name a key has got on a second key gives the same escaped name
  and the same unescaped name. \<^verbatim>\<open>keySetName\<close> accepts \<^verbatim>\<open>system////////\<close> with the
  return value 0 and stores the name \<^verbatim>\<open>system\<close>, but the unescaped name is never
  written: the seven bytes behind the name are still the slashes of the argument. Setting
  the name \<^verbatim>\<open>system\<close> on a second key gives the unescaped name \<^verbatim>\<open>system\<close> with its NUL.
\<close>

theorem keySetName_not_idempotent:
  "fst (keySetName unnamed_key (Some ''system////////'')) = 0
   \<and> keyName (snd (keySetName unnamed_key (Some ''system////////''))) = ''system''
   \<and> keyUnescapedName (snd (keySetName unnamed_key (Some ''system////////''))) = ''///////''
   \<and> fst (keySetName unnamed_key (Some ''system'')) = 7
   \<and> keyName (snd (keySetName unnamed_key (Some ''system''))) = ''system''
   \<and> keyUnescapedName (snd (keySetName unnamed_key (Some ''system''))) = ''system'' @ [NUL]"
  by (simp add: model_defs unnamed_key_def cong: let_weak_cong)

subsection \<open>C3: a failed \<^verbatim>\<open>keySetName\<close> leaves the name empty\<close>

text \<open>
  C3: whenever \<^verbatim>\<open>keySetName\<close> returns -1 on a key whose name is not locked, the name is
  empty afterwards, whatever it was before: \<^verbatim>\<open>keyName\<close> returns the empty string and
  \<^verbatim>\<open>keyGetNameSize\<close> returns 1.
\<close>

theorem keySetName_failure_empties_name:
  assumes "\<not> test_bit (flags k) KEY_FLAG_RO_NAME"
    and "fst (keySetName k newName) = - 1"
  shows "keyName (snd (keySetName k newName)) = []
         \<and> keyGetNameSize (snd (keySetName k newName)) = 1"
  using elektraKeySetName_fails [OF assms(1), of newName False] assms(2)
  by (simp add: keySetName_def keyName_def keyGetNameSize_def)

text \<open>C3 at the key \<^verbatim>\<open>system/a\<close> and the name \<^verbatim>\<open>no/namespace\<close>, which has no
  namespace and is invalid.\<close>

theorem keySetName_failure_empties_name_witness:
  "\<not> test_bit (flags synced_system_a) KEY_FLAG_RO_NAME
   \<and> keyName synced_system_a = ''system/a''
   \<and> fst (keySetName synced_system_a (Some ''no/namespace'')) = - 1
   \<and> keyName (snd (keySetName synced_system_a (Some ''no/namespace''))) = []
   \<and> keyGetNameSize (snd (keySetName synced_system_a (Some ''no/namespace''))) = 1"
proof -
  have unlocked: "\<not> test_bit (flags synced_system_a) KEY_FLAG_RO_NAME"
    by (simp add: synced_system_a_def)
  have fails: "fst (keySetName synced_system_a (Some ''no/namespace'')) = - 1"
    by (simp add: model_defs synced_system_a_def cong: let_weak_cong)
  have named: "keyName synced_system_a = ''system/a''"
    by (simp add: synced_system_a_def keyName_def cstring_def NUL_def)
  from keySetName_failure_empties_name [OF unlocked fails] unlocked fails named
  show ?thesis by simp
qed

subsection \<open>C4: a locked name\<close>

text \<open>
  C4 as stated says that all four functions return -1 on a key with a locked name. With a
  NULL base name \<^verbatim>\<open>keyAddBaseName\<close> returns the size of the name instead, here 7: it
  tests the base name before the lock.
\<close>

theorem locked_name_counterexample:
  "test_bit (flags locked_system_key) KEY_FLAG_RO_NAME
   \<and> fst (keyAddBaseName locked_system_key None) \<noteq> - 1"
  by (simp add: keyAddBaseName_def locked_system_key_def)

text \<open>
  C4, amended: on a key whose name is locked, \<^verbatim>\<open>keySetName\<close>, \<^verbatim>\<open>keyAddName\<close>,
  \<^verbatim>\<open>keySetBaseName\<close>, and \<^verbatim>\<open>keyAddBaseName\<close> with a base name that is not NULL, return
  -1, and all four leave every field of the key as it was, also \<^verbatim>\<open>keyAddBaseName\<close> with
  a NULL base name, which returns the stored size of the name.
\<close>

theorem locked_name_unchanged:
  assumes "test_bit (flags k) KEY_FLAG_RO_NAME"
  shows "keySetName k newName = (- 1, k) \<and> keyAddName k newName = (- 1, k)
         \<and> keySetBaseName k baseName = (- 1, k)
         \<and> (baseName \<noteq> None \<longrightarrow> keyAddBaseName k baseName = (- 1, k))
         \<and> keyAddBaseName k None = (int (keySize k), k)"
  using assms
  by (auto simp: keySetName_def elektraKeySetName_def keyAddName_def keySetBaseName_def
      keyAddBaseName_def)

text \<open>C4, amended, at the locked key \<^verbatim>\<open>system\<close>.\<close>

theorem locked_name_unchanged_witness:
  "test_bit (flags locked_system_key) KEY_FLAG_RO_NAME
   \<and> keySetName locked_system_key (Some ''user/a'') = (- 1, locked_system_key)
   \<and> keyAddName locked_system_key (Some ''a'') = (- 1, locked_system_key)
   \<and> keySetBaseName locked_system_key (Some ''a'') = (- 1, locked_system_key)
   \<and> keyAddBaseName locked_system_key (Some ''a'') = (- 1, locked_system_key)
   \<and> keyAddBaseName locked_system_key None = (7, locked_system_key)"
proof -
  have locked: "test_bit (flags locked_system_key) KEY_FLAG_RO_NAME"
    by (simp add: locked_system_key_def)
  have size: "keySize locked_system_key = 7"
    by (simp add: locked_system_key_def)
  from locked_name_unchanged [OF locked, of "Some ''user/a''" "Some ''a''"]
    locked_name_unchanged [OF locked, of "Some ''a''" "Some ''a''"] locked size
  show ?thesis by simp
qed

subsection \<open>C5: adding a base name with a dot inside\<close>

text \<open>
  C5 is about the bytes that \<^verbatim>\<open>elektraEscapeKeyNamePart\<close> returns for the base name
  \<^verbatim>\<open>my.key\<close>, and that function is not among the source files. What \<^verbatim>\<open>keyAddBaseName\<close>
  itself does is independent of it: for every base name it stores the old name, a
  separator and the escaped base name as it receives it. The proof does not look into
  \<^verbatim>\<open>elektraEscapeKeyNamePart\<close>.
\<close>

lemma user_sw_app_key:
  assumes "\<not> test_bit (flags k) KEY_FLAG_RO_NAME"
  shows "key (snd (keySetName k (Some ''user/sw/app'')))
           = Some (''user/sw/app'' @ [NUL] @ ''user'' @ [NUL] @ ''sw'' @ [NUL] @ ''app'' @ [NUL])"
    and "keySize (snd (keySetName k (Some ''user/sw/app''))) = 12"
    and "\<not> test_bit (flags (snd (keySetName k (Some ''user/sw/app'')))) KEY_FLAG_RO_NAME"
  using assms by (simp_all add: model_defs cong: let_weak_cong)

lemma cstring_terminated:
  assumes "NUL \<notin> set xs"
  shows "cstring (xs @ NUL # ys) = xs"
  using assms by (auto simp: cstring_def takeWhile_tail)

lemma keyAddBaseName_appends_escaped:
  assumes "\<not> test_bit (flags k) KEY_FLAG_RO_NAME"
    and "NUL \<notin> set (elektraEscapeKeyNamePart baseName)"
  shows "keyName (snd (keyAddBaseName (snd (keySetName k (Some ''user/sw/app'')))
                        (Some baseName)))
         = ''user/sw/app/'' @ elektraEscapeKeyNamePart baseName"
proof -
  let ?k = "snd (keySetName k (Some ''user/sw/app''))"
  let ?e = "elektraEscapeKeyNamePart baseName"
  let ?p = "''user/sw/app/''"
  note start = user_sw_app_key [OF assms(1)]
  have "\<exists>rest. key (snd (keyAddBaseName ?k (Some baseName))) = Some ((?p @ ?e) @ NUL # rest)"
    using start
    by (simp add: keyAddBaseName_def elektraFinalizeName_def Let_def the_key_def poke_def
        memcpy_at_def elektraRealloc_def NUL_def KDB_PATH_SEPARATOR_def)
  then obtain rest where
    "key (snd (keyAddBaseName ?k (Some baseName))) = Some ((?p @ ?e) @ NUL # rest)" ..
  moreover have "NUL \<notin> set (?p @ ?e)"
    using assms(2) by (simp add: NUL_def)
  ultimately show ?thesis
    using cstring_terminated [of "?p @ ?e" rest] by (simp add: keyName_def)
qed

subsection \<open>C6: the empty name\<close>

text \<open>
  C6 as stated says that \<^verbatim>\<open>keyGetUnescapedNameSize\<close> returns 0 after the name was set to
  the empty string. \<^verbatim>\<open>elektraFinalizeEmptyName\<close> allocates two NUL bytes and sets both
  sizes to 1, so the unescaped size is 1.
\<close>

theorem empty_name_usize_counterexample:
  "keyGetUnescapedNameSize (snd (keySetName unnamed_key (Some []))) \<noteq> 0
   \<and> keyGetUnescapedNameSize (snd (keySetName unnamed_key None)) \<noteq> 0"
  by (simp add: model_defs unnamed_key_def)

text \<open>
  C6, amended: after setting the name of a key without a name lock to the empty string or
  to NULL, \<^verbatim>\<open>keySetName\<close> has returned 0, the namespace of the key is the empty
  namespace, \<^verbatim>\<open>keyGetNameSize\<close> returns 1 (a lone NUL) and \<^verbatim>\<open>keyGetUnescapedNameSize\<close>
  returns 1 (a lone NUL as well).
\<close>

theorem keySetName_empty:
  assumes "\<not> test_bit (flags k) KEY_FLAG_RO_NAME"
    and "newName = None \<or> newName = Some []"
  shows "fst (keySetName k newName) = 0
         \<and> keyGetNamespace (snd (keySetName k newName)) = KEY_NS_EMPTY
         \<and> keyName (snd (keySetName k newName)) = []
         \<and> keyGetNameSize (snd (keySetName k newName)) = 1
         \<and> keyGetUnescapedNameSize (snd (keySetName k newName)) = 1
         \<and> keyUnescapedName (snd (keySetName k newName)) = [NUL]"
  using assms by (auto simp: model_defs)

text \<open>C6, amended, at the key \<^verbatim>\<open>system/a\<close> and the empty string.\<close>

theorem keySetName_empty_witness:
  "\<not> test_bit (flags synced_system_a) KEY_FLAG_RO_NAME
   \<and> fst (keySetName synced_system_a (Some [])) = 0
   \<and> keyGetNamespace (snd (keySetName synced_system_a (Some []))) = KEY_NS_EMPTY
   \<and> keyGetNameSize (snd (keySetName synced_system_a (Some []))) = 1
   \<and> keyGetUnescapedNameSize (snd (keySetName synced_system_a (Some []))) = 1"
proof -
  have unlocked: "\<not> test_bit (flags synced_system_a) KEY_FLAG_RO_NAME"
    by (simp add: synced_system_a_def)
  from keySetName_empty [OF unlocked, of "Some []"] unlocked
  show ?thesis by simp
qed

subsection \<open>C7: \<^verbatim>\<open>..\<close> at the root of a namespace\<close>

text \<open>
  C7 as stated says that \<^verbatim>\<open>system/../..\<close> is invalid: \<^verbatim>\<open>keySetName\<close> returns -1 and
  the name is empty afterwards. \<^verbatim>\<open>elektraRemoveOneLevel\<close> removes a level only when the
  name has more than one, so the call does not fail and the name is not empty.
\<close>

theorem dotdot_at_root_counterexample:
  "fst (keySetName unnamed_key (Some ''system/../..'')) \<noteq> - 1
   \<and> keyName (snd (keySetName unnamed_key (Some ''system/../..''))) \<noteq> []"
  by (simp add: model_defs unnamed_key_def cong: let_weak_cong)

text \<open>
  C7, amended: on a key without a name lock, \<^verbatim>\<open>keySetName\<close> with \<^verbatim>\<open>system/..\<close> does
  not fail and leaves the name \<^verbatim>\<open>system\<close>, and \<^verbatim>\<open>keySetName\<close> with \<^verbatim>\<open>system/../..\<close>
  does not fail either and leaves the name \<^verbatim>\<open>system\<close> as well: a \<^verbatim>\<open>..\<close> at the root of
  the namespace is ignored.
\<close>

theorem dotdot_at_root_ignored:
  assumes "\<not> test_bit (flags k) KEY_FLAG_RO_NAME"
  shows "fst (keySetName k (Some ''system/..'')) \<noteq> - 1
         \<and> keyName (snd (keySetName k (Some ''system/..''))) = ''system''
         \<and> fst (keySetName k (Some ''system/../..'')) \<noteq> - 1
         \<and> keyName (snd (keySetName k (Some ''system/../..''))) = ''system''"
  using assms by (simp add: model_defs cong: let_weak_cong)

text \<open>C7, amended, at the key \<^verbatim>\<open>system/a\<close>.\<close>

theorem dotdot_at_root_ignored_witness:
  "\<not> test_bit (flags synced_system_a) KEY_FLAG_RO_NAME
   \<and> fst (keySetName synced_system_a (Some ''system/..'')) \<noteq> - 1
   \<and> keyName (snd (keySetName synced_system_a (Some ''system/..''))) = ''system''
   \<and> fst (keySetName synced_system_a (Some ''system/../..'')) \<noteq> - 1
   \<and> keyName (snd (keySetName synced_system_a (Some ''system/../..''))) = ''system''"
proof -
  have unlocked: "\<not> test_bit (flags synced_system_a) KEY_FLAG_RO_NAME"
    by (simp add: synced_system_a_def)
  from dotdot_at_root_ignored [OF unlocked] unlocked
  show ?thesis by simp
qed

subsection \<open>C8: the namespace of a name\<close>

text \<open>
  C8: the namespace of a name depends only on its first segment. \<^verbatim>\<open>keyGetNameNamespace\<close>
  returns the empty namespace for NULL and for the empty string, cascading for every name
  whose first byte is \<^verbatim>\<open>/\<close>, the matching namespace when the first segment is \<^verbatim>\<open>spec\<close>,
  \<^verbatim>\<open>proc\<close>, \<^verbatim>\<open>dir\<close>, \<^verbatim>\<open>user\<close> (also with an owner) or \<^verbatim>\<open>system\<close>, and meta for
  every other name; two names that are not empty and have the same first segment have the
  same namespace.
\<close>

theorem namespace_by_first_segment:
  "keyGetNameNamespace None = KEY_NS_EMPTY
   \<and> keyGetNameNamespace (Some []) = KEY_NS_EMPTY
   \<and> keyGetNameNamespace (Some (CHR ''/'' # name)) = KEY_NS_CASCADING
   \<and> (name \<noteq> [] \<and> hd name \<noteq> CHR ''/'' \<longrightarrow>
        keyGetNameNamespace (Some name) = namespace_of_first_segment (first_segment name))
   \<and> (name \<noteq> [] \<and> name' \<noteq> [] \<and> first_segment name = first_segment name' \<longrightarrow>
        keyGetNameNamespace (Some name) = keyGetNameNamespace (Some name'))"
proof -
  have by_segment: "keyGetNameNamespace (Some n) = namespace_of_first_segment (first_segment n)"
    if "n \<noteq> []" "hd n \<noteq> CHR ''/''" for n
    using that unfolding keyGetNameNamespace_def namespace_of_first_segment_def
    by (auto simp: keyNameIs_first_segment)
  have cascading: "keyGetNameNamespace (Some n) = KEY_NS_CASCADING"
    if "n \<noteq> []" "hd n = CHR ''/''" for n
    using that by (simp add: keyGetNameNamespace_def)
  have same: "keyGetNameNamespace (Some n) = keyGetNameNamespace (Some n')"
    if "n \<noteq> []" "n' \<noteq> []" "first_segment n = first_segment n'" for n n'
  proof (cases "hd n = CHR ''/''")
    case True
    with that have "hd n' = CHR ''/''"
      using first_segment_Nil_iff [of n] first_segment_Nil_iff [of n']
      by (simp add: KDB_PATH_SEPARATOR_def)
    with True that show ?thesis by (simp add: cascading)
  next
    case False
    with that have "hd n' \<noteq> CHR ''/''"
      using first_segment_Nil_iff [of n] first_segment_Nil_iff [of n']
      by (simp add: KDB_PATH_SEPARATOR_def)
    with False that show ?thesis by (simp add: by_segment)
  qed
  show ?thesis
    using by_segment [of name] same [of name name']
    by (simp add: keyGetNameNamespace_def)
qed

text \<open>C8 at the names \<^verbatim>\<open>user:max/sw\<close> and \<^verbatim>\<open>user:max\<close>, which share their first
  segment, and at the cascading name \<^verbatim>\<open>/sw\<close>.\<close>

theorem namespace_by_first_segment_witness:
  "''user:max/sw'' \<noteq> [] \<and> hd ''user:max/sw'' \<noteq> CHR ''/''
   \<and> first_segment ''user:max/sw'' = first_segment ''user:max''
   \<and> keyGetNameNamespace (Some ''/sw'') = KEY_NS_CASCADING
   \<and> keyGetNameNamespace (Some ''user:max/sw'') = KEY_NS_USER
   \<and> keyGetNameNamespace (Some ''user:max'') = KEY_NS_USER"
proof -
  have first: "''user:max/sw'' \<noteq> [] \<and> hd ''user:max/sw'' \<noteq> CHR ''/''"
    by simp
  have shared: "''user:max/sw'' \<noteq> [] \<and> ''user:max'' \<noteq> []
     \<and> first_segment ''user:max/sw'' = first_segment ''user:max''"
    by (simp add: first_segment_def KDB_PATH_SEPARATOR_def)
  have seg: "namespace_of_first_segment (first_segment ''user:max/sw'') = KEY_NS_USER"
    by (simp add: first_segment_def namespace_of_first_segment_def KDB_PATH_SEPARATOR_def)
  note inst = namespace_by_first_segment [of "''user:max/sw''" "''user:max''"]
  from namespace_by_first_segment [of "''sw''" "''user:max''"]
  have cascading: "keyGetNameNamespace (Some ''/sw'') = KEY_NS_CASCADING"
    by blast
  from inst first seg have long: "keyGetNameNamespace (Some ''user:max/sw'') = KEY_NS_USER"
    by presburger
  from inst shared have
    "keyGetNameNamespace (Some ''user:max/sw'') = keyGetNameNamespace (Some ''user:max'')"
    by blast
  with long have short: "keyGetNameNamespace (Some ''user:max'') = KEY_NS_USER"
    by simp
  from first shared cascading long short show ?thesis
    by blast
qed

subsection \<open>C9: the sync flag\<close>

text \<open>
  Every call that returns a positive size has gone through \<^verbatim>\<open>elektraFinalizeName\<close>,
  which sets the sync flag.
\<close>

lemma elektraFinalizeName_sync: "keyNeedSync (snd (elektraFinalizeName k))"
  by (simp add: elektraFinalizeName_def keyNeedSync_def Let_def)

lemma keyAddName_positive_sync:
  assumes "keyAddName k newName = (ret, k')" and "0 < ret"
  shows "keyNeedSync k'"
  using assms elektraFinalizeName_sync
  by (auto simp: keyAddName_def Let_def split: if_splits option.splits) (metis snd_conv)+

lemma positive_return_sets_sync:
  "0 < fst (keySetName k newName) \<Longrightarrow> keyNeedSync (snd (keySetName k newName))"
  "0 < fst (keyAddName k newName) \<Longrightarrow> keyNeedSync (snd (keyAddName k newName))"
  "0 < fst (keySetBaseName k baseName) \<Longrightarrow> keyNeedSync (snd (keySetBaseName k baseName))"
  "0 < fst (keyAddBaseName k (Some b)) \<Longrightarrow> keyNeedSync (snd (keyAddBaseName k (Some b)))"
proof -
  show "keyNeedSync (snd (keyAddName k newName))" if "0 < fst (keyAddName k newName)"
    using that keyAddName_positive_sync [of k newName] by (cases "keyAddName k newName") simp
  show "keyNeedSync (snd (keySetName k newName))" if "0 < fst (keySetName k newName)"
    using that elektraFinalizeName_sync
    by (auto simp: keySetName_def elektraKeySetName_def Let_def
        split: if_splits option.splits prod.splits dest: keyAddName_positive_sync)
  show "keyNeedSync (snd (keySetBaseName k baseName))" if "0 < fst (keySetBaseName k baseName)"
    using that elektraFinalizeName_sync
    by (auto simp: keySetBaseName_def Let_def split: if_splits option.splits prod.splits)
  show "keyNeedSync (snd (keyAddBaseName k (Some b)))" if "0 < fst (keyAddBaseName k (Some b))"
    using that elektraFinalizeName_sync
    by (auto simp: keyAddBaseName_def Let_def split: if_splits option.splits)
qed

text \<open>
  C9 says that every successful operation that changes the name sets the sync flag.
  \<^verbatim>\<open>keyAddName\<close> with \<^verbatim>\<open>../b\<close> changes the name of the key \<^verbatim>\<open>system/a\<close> to
  \<^verbatim>\<open>system/b\<close>; the new name has the size of the old one, so \<^verbatim>\<open>keyAddName\<close> returns 0
  at its test \<^verbatim>\<open>origSize == key->keySize\<close> before \<^verbatim>\<open>elektraFinalizeName\<close> sets the
  flag. In the same way \<^verbatim>\<open>keySetName\<close> with \<^verbatim>\<open>system////////\<close> gives a key without a
  name the name \<^verbatim>\<open>system\<close> and leaves the flag clear.
\<close>

theorem name_change_without_sync:
  "keyName synced_system_a = ''system/a''
   \<and> \<not> keyNeedSync synced_system_a
   \<and> fst (keyAddName synced_system_a (Some ''../b'')) = 0
   \<and> keyName (snd (keyAddName synced_system_a (Some ''../b''))) = ''system/b''
   \<and> \<not> keyNeedSync (snd (keyAddName synced_system_a (Some ''../b'')))
   \<and> keyName (snd (keySetName unnamed_key (Some ''system////////''))) = ''system''
   \<and> \<not> keyNeedSync (snd (keySetName unnamed_key (Some ''system////////'')))"
  by (simp add: model_defs unnamed_key_def synced_system_a_def cong: let_weak_cong)

subsection \<open>C10: \<^verbatim>\<open>keyAddBaseName\<close> with a NULL base name\<close>

text \<open>
  C10: for every key, locked or not, \<^verbatim>\<open>keyAddBaseName\<close> with a NULL base name returns the
  stored size of the name and changes no field of the key; for a key whose name was
  removed the size is 0.
\<close>

theorem keyAddBaseName_NULL_noop:
  "keyAddBaseName k None = (int (keySize k), k)
   \<and> fst (keyAddBaseName (elektraRemoveKeyName k) None) = 0"
  by (simp add: keyAddBaseName_def elektraRemoveKeyName_def)

text \<open>C10 at the locked key \<^verbatim>\<open>system\<close>.\<close>

theorem keyAddBaseName_NULL_noop_witness:
  "keyAddBaseName locked_system_key None = (7, locked_system_key)
   \<and> fst (keyAddBaseName (elektraRemoveKeyName locked_system_key) None) = 0"
  using keyAddBaseName_NULL_noop [of locked_system_key] by (simp add: locked_system_key_def)

end
